theory Spec2Isabelle
  imports Complex_Main "HOL-Library.Multiset" "HOL-Library.List_Lexorder" "HOL-Library.Char_ord"
begin

section \<open>Daily management fees: the class CalculandoTaxadeGestao\<close>

text \<open>
  The program keeps two attributes, \<open>planilha_controle\<close> (the reference table) and
  \<open>pl_data\<close> (the list of snapshot tables), loads them from spreadsheets and computes the
  report of daily fees. Tables are lists of typed rows; a null cell (pandas' NaN, NaT or
  None) is \<open>None\<close>. Floating-point numbers are idealised as exact reals: no rounding
  error, no overflow, and NaN only as the null cell. What \<open>pd.read_excel\<close> returns is an
  input of the model.
\<close>

subsection \<open>Exceptions and messages\<close>

datatype py_error = KeyError string | ValueError | ReadError

text \<open>The messages \<open>st.error\<close> shows, one constructor for each call in the source.\<close>

datatype st_error =
    Erro_planilha_de_controle py_error
  | Nome_sem_data string
  | Data_invalida string
  | Erro_arquivo_PL string py_error
  | Nao_carregados

subsection \<open>The date tag of a file name\<close>

record datetime =
  day :: nat
  month :: nat
  year :: nat

definition is_digit :: "char \<Rightarrow> bool" where
  "is_digit c = (c \<in> set ''0123456789'')"

text \<open>
  The pattern \<open>PL Total - (\d{2}\.\d{2})\<close> tried at the start of a string: the group
  when it matches there. Characters are bytes, so \<open>\d\<close> is an ASCII digit.
\<close>

definition match_here :: "string \<Rightarrow> string option" where
  "match_here s =
     (if take 11 s = ''PL Total - '' then
        (case drop 11 s of
           a # b # c # d # e # _ \<Rightarrow>
             if is_digit a \<and> is_digit b \<and> c = CHR ''.'' \<and> is_digit d \<and> is_digit e
             then Some [a, b, c, d, e] else None
         | _ \<Rightarrow> None)
      else None)"

text \<open>\<open>re.search\<close>: the leftmost position where the pattern matches; \<open>group(1)\<close>.\<close>

fun re_search :: "string \<Rightarrow> string option" where
  "re_search [] = None"
| "re_search (c # cs) =
     (case match_here (c # cs) of Some g \<Rightarrow> Some g | None \<Rightarrow> re_search cs)"

definition digit_val :: "char \<Rightarrow> nat" where
  "digit_val c = of_char c - 48"

definition is_leap :: "nat \<Rightarrow> bool" where
  "is_leap y = (y mod 4 = 0 \<and> (y mod 100 \<noteq> 0 \<or> y mod 400 = 0))"

definition days_in_month :: "nat \<Rightarrow> nat \<Rightarrow> nat" where
  "days_in_month y m =
     (if m = 2 then (if is_leap y then 29 else 28)
      else if m = 4 \<or> m = 6 \<or> m = 9 \<or> m = 11 then 30 else 31)"

text \<open>
  \<open>datetime.datetime.strptime(date_str, '%d.%m')\<close> on the five characters the pattern
  hands over: the day is 01..31, the month 01..12, and the date is built in the default
  year 1900, where a day beyond the month's length raises ValueError. On any other string
  the model raises ValueError (the pattern never produces one).
\<close>

definition strptime :: "string \<Rightarrow> py_error + datetime" where
  "strptime s =
     (case s of
        [a, b, p, c, d] \<Rightarrow>
          if is_digit a \<and> is_digit b \<and> p = CHR ''.'' \<and> is_digit c \<and> is_digit d then
            (let dd = 10 * digit_val a + digit_val b;
                 mm = 10 * digit_val c + digit_val d
             in if 1 \<le> dd \<and> dd \<le> 31 \<and> 1 \<le> mm \<and> mm \<le> 12 \<and> dd \<le> days_in_month 1900 mm
                then Inr \<lparr>day = dd, month = mm, year = 1900\<rparr>
                else Inl ValueError)
          else Inl ValueError
      | _ \<Rightarrow> Inl ValueError)"

text \<open>
  \<open>.replace(year=y)\<close> builds the date again in year \<open>y\<close> and raises ValueError when the
  day does not exist there. \<open>y\<close> is \<open>datetime.date.today().year\<close>, the year of a date, so
  it is always in range.
\<close>

definition replace_year :: "nat \<Rightarrow> datetime \<Rightarrow> py_error + datetime" where
  "replace_year y d =
     (if day d \<le> days_in_month y (month d) then Inr (d\<lparr>year := y\<rparr>) else Inl ValueError)"

definition parse_date :: "nat \<Rightarrow> string \<Rightarrow> py_error + datetime" where
  "parse_date today_year date_str =
     (case strptime date_str of Inl e \<Rightarrow> Inl e | Inr d \<Rightarrow> replace_year today_year d)"

subsection \<open>The session and load_pl_file\<close>

text \<open>
  A row of a snapshot table after the renaming: columns \<open>conta\<close>, \<open>VALOR\<close>, \<open>Data\<close>.
  The account column holds strings, the amount column numbers.
\<close>

record pl_row =
  pl_conta :: "string option"
  pl_VALOR :: "real option"
  pl_Data :: datetime

text \<open>
  What \<open>pd.read_excel(uploaded_pl)\<close> returned: each of the two columns the program
  reads, when the sheet has it. The columns of one sheet have the same length.
\<close>

record pl_sheet =
  sheet_Conta :: "string option list option"
  sheet_Valor :: "real option list option"

text \<open>
  The reference table: as read (\<open>Sheet\<close>, with the column \<open>Conta\<close> given by the text
  \<open>astype(str)\<close> makes of each cell) or as \<open>load_control_file\<close> leaves it when it
  succeeds (\<open>Reference\<close>: columns \<open>conta\<close>, \<open>Taxa_de_Gestao\<close>, and the \<open>index\<close> column
  that \<open>reset_index()\<close> adds to the duplicated rows). The columns of a sheet have
  \<open>n_rows\<close> cells each; a sheet is assumed to have no column already named \<open>conta\<close>.
\<close>

record sheet =
  n_rows :: nat
  Conta :: "string list option"
  Taxa_de_Gestao_col :: "real option list option"

record ref_row =
  ref_conta :: string
  ref_Taxa :: "real option"
  ref_index :: "nat option"

datatype frame = Sheet sheet | Reference "ref_row list"

record session =
  planilha_controle :: "frame option"
  pl_data :: "pl_row list list"
  shown :: "st_error list"

definition init :: session where
  "init = \<lparr>planilha_controle = None, pl_data = [], shown = []\<rparr>"

definition st_error :: "st_error \<Rightarrow> session \<Rightarrow> session" where
  "st_error e s = s\<lparr>shown := shown s @ [e]\<rparr>"

text \<open>
  \<open>load_pl_file(uploaded_pl, file_name)\<close>. \<open>today_year\<close> is the current year and
  \<open>uploaded_pl\<close> the outcome of \<open>pd.read_excel\<close>. The outer \<open>try\<close> turns every exception
  into a message; the two early returns leave the accumulator as it was.
\<close>

definition load_pl_file :: "nat \<Rightarrow> py_error + pl_sheet \<Rightarrow> string \<Rightarrow> session \<Rightarrow> session" where
  "load_pl_file today_year uploaded_pl file_name s =
     (case re_search file_name of
        None \<Rightarrow> st_error (Nome_sem_data file_name) s
      | Some date_str \<Rightarrow>
          (case parse_date today_year date_str of
             Inl _ \<Rightarrow> st_error (Data_invalida file_name) s
           | Inr date \<Rightarrow>
               (case uploaded_pl of
                  Inl e \<Rightarrow> st_error (Erro_arquivo_PL file_name e) s
                | Inr pl \<Rightarrow>
                    (case sheet_Conta pl of
                       None \<Rightarrow> st_error (Erro_arquivo_PL file_name (KeyError ''Conta'')) s
                     | Some cs \<Rightarrow>
                         (case sheet_Valor pl of
                            None \<Rightarrow> st_error (Erro_arquivo_PL file_name (KeyError ''Valor'')) s
                          | Some vs \<Rightarrow>
                              s\<lparr>pl_data := pl_data s @
                                 [map (\<lambda>(c, v). \<lparr>pl_conta = c, pl_VALOR = v, pl_Data = date\<rparr>)
                                    (zip cs vs)]\<rparr>)))))"

text \<open>The loop of \<open>main\<close> over the uploaded files, in upload order.\<close>

fun load_pl_files :: "nat \<Rightarrow> ((py_error + pl_sheet) \<times> string) list \<Rightarrow> session \<Rightarrow> session" where
  "load_pl_files today_year [] s = s"
| "load_pl_files today_year ((pl_file, name) # rest) s =
     load_pl_files today_year rest (load_pl_file today_year pl_file name s)"

subsection \<open>load_control_file\<close>

definition contas_3_zeros :: "string list" where
  "contas_3_zeros =
     [''00989247'', ''00938440'', ''00626491'', ''00806386'',
      ''00431814'', ''00827730'', ''00772433'', ''00834301'', ''00330949'']"

text \<open>
  \<open>.str[:-2].map(lambda x: '00' + x)\<close> on one cell's text: the slice drops the last two
  characters and is empty for a text shorter than two.
\<close>

definition normalize :: "string \<Rightarrow> string" where
  "normalize x = ''00'' @ take (length x - 2) x"

text \<open>The table after line 19: one row for each row of the sheet, in order.\<close>

definition base_rows :: "string list \<Rightarrow> real option list \<Rightarrow> ref_row list" where
  "base_rows cs ts =
     map (\<lambda>(c, t). \<lparr>ref_conta = normalize c, ref_Taxa = t, ref_index = None\<rparr>) (zip cs ts)"

text \<open>
  Lines 25 and 26: the rows whose account is in the list, with their positions as the
  column \<open>index\<close>, and one more \<open>0\<close> in front of the account.
\<close>

definition contas_add_zero :: "ref_row list \<Rightarrow> ref_row list" where
  "contas_add_zero base =
     map (\<lambda>(i, r). r\<lparr>ref_conta := CHR ''0'' # ref_conta r, ref_index := Some i\<rparr>)
       (filter (\<lambda>(i, r). ref_conta r \<in> set contas_3_zeros) (enumerate 0 base))"

text \<open>
  \<open>load_control_file(uploaded_planilha_de_controle)\<close>; the argument is the outcome of
  \<open>pd.read_excel(..., sheet_name=1, skiprows=1)\<close>. The attribute is assigned as soon as
  the sheet is read (line 16), its column \<open>Conta\<close> is rewritten in place (line 18), and
  the \<open>except\<close> clause only shows a message.
\<close>

definition load_control_file :: "py_error + sheet \<Rightarrow> session \<Rightarrow> session" where
  "load_control_file uploaded s =
     (case uploaded of
        Inl e \<Rightarrow> st_error (Erro_planilha_de_controle e) s
      | Inr sh \<Rightarrow>
          (case Conta sh of
             None \<Rightarrow>
               st_error (Erro_planilha_de_controle (KeyError ''Conta''))
                 (s\<lparr>planilha_controle := Some (Sheet sh)\<rparr>)
           | Some cs \<Rightarrow>
               (case Taxa_de_Gestao_col sh of
                  None \<Rightarrow>
                    st_error (Erro_planilha_de_controle (KeyError ''Taxa de Gestao''))
                      (s\<lparr>planilha_controle := Some (Sheet (sh\<lparr>Conta := Some (map normalize cs)\<rparr>))\<rparr>)
                | Some ts \<Rightarrow>
                    (let base = base_rows cs ts
                     in s\<lparr>planilha_controle := Some (Reference (base @ contas_add_zero base))\<rparr>))))"

subsection \<open>calculate_daily_fees\<close>

text \<open>\<open>DataFrame.empty\<close>: no row.\<close>

definition frame_empty :: "frame \<Rightarrow> bool" where
  "frame_empty f = (case f of Sheet sh \<Rightarrow> n_rows sh = 0 | Reference ref \<Rightarrow> ref = [])"

text \<open>The non-null cells of a column, in order.\<close>

definition non_null :: "'a option list \<Rightarrow> 'a list" where
  "non_null xs = concat (map (\<lambda>x. case x of None \<Rightarrow> [] | Some v \<Rightarrow> [v]) xs)"

text \<open>
  A row of \<open>pd.merge(planilha_controle, pl_combined, on='conta', how='outer')\<close>, restricted
  to the four columns line 72 keeps.
\<close>

record merged_row =
  m_conta :: "string option"
  m_Taxa_de_Gestao :: "real option"
  m_VALOR :: "real option"
  m_Data :: "datetime option"

text \<open>
  The outer join: the keys of both sides in lexicographic order; for each key every pair
  of a left and a right row, or the rows of the only side that has it, with nulls for the
  other side's columns. Right rows with a null key come last (the left key is never null).
\<close>

definition rows_for_key :: "ref_row list \<Rightarrow> pl_row list \<Rightarrow> string \<Rightarrow> merged_row list" where
  "rows_for_key left right k =
     (let ls = filter (\<lambda>l. ref_conta l = k) left;
          rs = filter (\<lambda>r. pl_conta r = Some k) right
      in if rs = [] then
           map (\<lambda>l. \<lparr>m_conta = Some k, m_Taxa_de_Gestao = ref_Taxa l,
                      m_VALOR = None, m_Data = None\<rparr>) ls
         else if ls = [] then
           map (\<lambda>r. \<lparr>m_conta = Some k, m_Taxa_de_Gestao = None,
                      m_VALOR = pl_VALOR r, m_Data = Some (pl_Data r)\<rparr>) rs
         else
           concat (map (\<lambda>l. map (\<lambda>r. \<lparr>m_conta = Some k, m_Taxa_de_Gestao = ref_Taxa l,
                      m_VALOR = pl_VALOR r, m_Data = Some (pl_Data r)\<rparr>) rs) ls))"

definition merge_outer :: "ref_row list \<Rightarrow> pl_row list \<Rightarrow> merged_row list" where
  "merge_outer left right =
     concat (map (rows_for_key left right)
        (sort (remdups (map ref_conta left @ non_null (map pl_conta right)))))
     @ map (\<lambda>r. \<lparr>m_conta = None, m_Taxa_de_Gestao = None,
                   m_VALOR = pl_VALOR r, m_Data = Some (pl_Data r)\<rparr>)
         (filter (\<lambda>r. pl_conta r = None) right)"

text \<open>\<open>.dropna(subset=['conta'])\<close>\<close>

definition dropna_conta :: "merged_row list \<Rightarrow> merged_row list" where
  "dropna_conta tx = filter (\<lambda>r. m_conta r \<noteq> None) tx"

definition calculo_diario :: real where
  "calculo_diario = 1 / 252"

text \<open>
  \<open>**\<close> on a float column with a fractional exponent: NaN for a negative base, 0 for the
  base 0.
\<close>

definition np_power :: "real \<Rightarrow> real \<Rightarrow> real option" where
  "np_power x y = (if x < 0 then None else Some (x powr y))"

text \<open>Line 75: \<open>((Taxa_de_Gestao + 1) ** calculo_diario - 1) * 100\<close> on one cell.\<close>

definition daily_rate :: "real option \<Rightarrow> real option" where
  "daily_rate taxa =
     map_option (\<lambda>p. (p - 1) * 100)
       (Option.bind (map_option (\<lambda>a. a + 1) taxa) (\<lambda>b. np_power b calculo_diario))"

text \<open>Rounding to the nearest integer, a tie to the even one (numpy's \<open>rint\<close>).\<close>

definition rint :: "real \<Rightarrow> int" where
  "rint x =
     (let f = \<lfloor>x\<rfloor>; d = x - of_int f
      in if d < 1 / 2 then f else if 1 / 2 < d then f + 1
         else if even f then f else f + 1)"

text \<open>\<open>round(_, 2)\<close> of a column, on one non-null cell: scale by 100, \<open>rint\<close>, scale back.\<close>

definition round2 :: "real \<Rightarrow> real" where
  "round2 x = of_int (rint (x * 100)) / 100"

text \<open>Line 76: \<open>round(VALOR * Tx_Gestao_Diaria / 100, 2)\<close> on one row.\<close>

definition fee_amount :: "real option \<Rightarrow> real option \<Rightarrow> real option" where
  "fee_amount valor tx =
     (case valor of
        None \<Rightarrow> None
      | Some v \<Rightarrow> (case tx of None \<Rightarrow> None | Some r \<Rightarrow> Some (round2 (v * r / 100))))"

definition two_digits :: "nat \<Rightarrow> string" where
  "two_digits n = [''0123456789'' ! ((n div 10) mod 10), ''0123456789'' ! (n mod 10)]"

text \<open>\<open>strftime('%d.%m')\<close>\<close>

definition strftime :: "datetime \<Rightarrow> string" where
  "strftime d = two_digits (day d) @ ''.'' @ two_digits (month d)"

text \<open>The table \<open>tx_gestao\<close> after line 79.\<close>

record tx_row =
  conta :: "string option"
  Taxa_de_Gestao :: "real option"
  VALOR :: "real option"
  Data :: "string option"
  Tx_Gestao_Diaria :: "real option"
  Valor_de_cobranca :: "real option"

definition add_columns :: "merged_row \<Rightarrow> tx_row" where
  "add_columns r =
     \<lparr>conta = m_conta r,
      Taxa_de_Gestao = m_Taxa_de_Gestao r,
      VALOR = m_VALOR r,
      Data = map_option strftime (m_Data r),
      Tx_Gestao_Diaria = daily_rate (m_Taxa_de_Gestao r),
      Valor_de_cobranca = fee_amount (m_VALOR r) (daily_rate (m_Taxa_de_Gestao r))\<rparr>"

definition tx_gestao :: "ref_row list \<Rightarrow> pl_row list list \<Rightarrow> tx_row list" where
  "tx_gestao ref pls = map add_columns (dropna_conta (merge_outer ref (concat pls)))"

text \<open>
  \<open>pivot_table(values='Valor_de_cobranca', index='conta', columns='Data', aggfunc='sum')\<close>:
  the rows are grouped by account and date, a row with a null key being left out; the
  sum of a group skips the null amounts (and is 0 when all are null); the index and the
  columns are sorted, and a pair with no group is a null cell.
\<close>

definition nan_to_zero :: "real option \<Rightarrow> real" where
  "nan_to_zero c = (case c of None \<Rightarrow> 0 | Some v \<Rightarrow> v)"

definition grouped :: "tx_row list \<Rightarrow> tx_row list" where
  "grouped tx = filter (\<lambda>r. conta r \<noteq> None \<and> Data r \<noteq> None) tx"

definition pivot_cell :: "tx_row list \<Rightarrow> string \<Rightarrow> string \<Rightarrow> real option" where
  "pivot_cell tx c d =
     (let g = filter (\<lambda>r. conta r = Some c \<and> Data r = Some d) (grouped tx)
      in if g = [] then None else Some (sum_list (map (\<lambda>r. nan_to_zero (Valor_de_cobranca r)) g)))"

record pivot =
  columns :: "string list"
  index :: "string list"
  cells :: "real option list list"

definition pivot_table :: "tx_row list \<Rightarrow> pivot" where
  "pivot_table tx =
     (let cols = sort (remdups (non_null (map Data (grouped tx))));
          idx = sort (remdups (non_null (map conta (grouped tx))))
      in \<lparr>columns = cols, index = idx,
          cells = map (\<lambda>c. map (pivot_cell tx c) cols) idx\<rparr>)"

text \<open>
  The report: the pivot after \<open>reset_index()\<close>, with the column \<open>Total\<close>. The numeric
  columns are the date columns (the account column holds strings), and \<open>sum(axis=1)\<close>
  skips null cells.
\<close>

record report_row =
  account :: string
  dates :: "real option list"
  Total :: real

record report =
  date_columns :: "string list"
  report_rows :: "report_row list"

definition add_total :: "pivot \<Rightarrow> report" where
  "add_total p =
     \<lparr>date_columns = columns p,
      report_rows =
        map (\<lambda>(c, numeric). \<lparr>account = c, dates = numeric,
                Total = round2 (sum_list (map nan_to_zero numeric))\<rparr>)
          (zip (index p) (cells p))\<rparr>"

text \<open>
  \<open>calculate_daily_fees()\<close>: the result is an exception, \<open>None\<close> or the report, with the
  session after the call. On a table that \<open>load_control_file\<close> left as read, the join
  fails for want of the column \<open>conta\<close>.
\<close>

definition calculate_daily_fees :: "session \<Rightarrow> (py_error + report option) \<times> session" where
  "calculate_daily_fees s =
     (case planilha_controle s of
        None \<Rightarrow> (Inr None, st_error Nao_carregados s)
      | Some f \<Rightarrow>
          if frame_empty f \<or> length (pl_data s) = 0 then (Inr None, st_error Nao_carregados s)
          else
            (case f of
               Sheet _ \<Rightarrow> (Inl (KeyError ''conta''), s)
             | Reference ref \<Rightarrow>
                 (Inr (Some (add_total (pivot_table (tx_gestao ref (pl_data s))))), s)))"

subsection \<open>An example session\<close>

text \<open>
  A reference table with the accounts 00222 and 00111, and two snapshot tables: 00222 on
  01.03, then 00222 and 00333 on 02.03. The annual rate \<open>- 1\<close> makes the daily rate
  \<open>- 100\<close>, so that the amounts can be computed exactly.
\<close>

definition example_session :: session where
  "example_session =
     \<lparr>planilha_controle =
        Some (Reference [\<lparr>ref_conta = ''00222'', ref_Taxa = Some (- 1), ref_index = None\<rparr>,
                         \<lparr>ref_conta = ''00111'', ref_Taxa = Some 0, ref_index = None\<rparr>]),
      pl_data =
        [[\<lparr>pl_conta = Some ''00222'', pl_VALOR = Some (12345 / 1000),
           pl_Data = \<lparr>day = 1, month = 3, year = 2026\<rparr>\<rparr>],
         [\<lparr>pl_conta = Some ''00222'', pl_VALOR = Some (10005 / 1000),
           pl_Data = \<lparr>day = 2, month = 3, year = 2026\<rparr>\<rparr>,
          \<lparr>pl_conta = Some ''00333'', pl_VALOR = Some 7,
           pl_Data = \<lparr>day = 2, month = 3, year = 2026\<rparr>\<rparr>]],
      shown = []\<rparr>"

definition example_report :: report where
  "example_report =
     \<lparr>date_columns = [''01.03'', ''02.03''],
      report_rows =
        [\<lparr>account = ''00222'', dates = [Some (- (1234 / 100)), Some (- 10)],
          Total = - (2234 / 100)\<rparr>,
         \<lparr>account = ''00333'', dates = [None, Some 0], Total = 0\<rparr>]\<rparr>"

text \<open>
  A session where the account 00111 has a rate and no snapshot row, and the account 00333
  a snapshot row and no rate.
\<close>

definition reference_only_session :: session where
  "reference_only_session =
     \<lparr>planilha_controle =
        Some (Reference [\<lparr>ref_conta = ''00111'', ref_Taxa = Some (2 / 100), ref_index = None\<rparr>,
                         \<lparr>ref_conta = ''00222'', ref_Taxa = Some (15 / 1000), ref_index = None\<rparr>]),
      pl_data =
        [[\<lparr>pl_conta = Some ''00222'', pl_VALOR = Some 100000,
           pl_Data = \<lparr>day = 1, month = 3, year = 2026\<rparr>\<rparr>,
          \<lparr>pl_conta = Some ''00333'', pl_VALOR = Some 5000,
           pl_Data = \<lparr>day = 1, month = 3, year = 2026\<rparr>\<rparr>]],
      shown = []\<rparr>"

section \<open>Properties\<close>

subsection \<open>Date tags\<close>

lemmas date_defs = match_here_def is_digit_def parse_date_def strptime_def replace_year_def
  digit_val_def days_in_month_def is_leap_def

lemma re_search_31_07: "re_search ''PL Total - 31.07.xlsx'' = Some ''31.07''"
  by (simp add: match_here_def is_digit_def)

lemma re_search_31_02: "re_search ''PL Total - 31.02.xlsx'' = Some ''31.02''"
  by (simp add: match_here_def is_digit_def)

lemma re_search_report: "re_search ''report.xlsx'' = None"
  by (simp add: match_here_def)

lemma parse_date_31_07: "parse_date y ''31.07'' = Inr \<lparr>day = 31, month = 7, year = y\<rparr>"
  by (simp add: date_defs)

lemma parse_date_31_02: "parse_date y ''31.02'' = Inl ValueError"
  by (simp add: date_defs)


text \<open>
  C6: the file name \<open>PL Total - 31.07.xlsx\<close> gives the date with day 31 and month 7 in
  the current year, and a readable file with that name is appended with this date. The
  name \<open>PL Total - 31.02.xlsx\<close> is refused as an invalid date and \<open>report.xlsx\<close> for want
  of the pattern: each time a message is shown, nothing is appended, and the loop over the
  uploaded files goes on with the files that follow.
\<close>

theorem date_tag_examples:
  "re_search ''PL Total - 31.07.xlsx'' = Some ''31.07''
   \<and> parse_date today_year ''31.07'' = Inr \<lparr>day = 31, month = 7, year = today_year\<rparr>
   \<and> load_pl_file today_year (Inr \<lparr>sheet_Conta = Some cs, sheet_Valor = Some vs\<rparr>)
         ''PL Total - 31.07.xlsx'' s =
       s\<lparr>pl_data := pl_data s @
          [map (\<lambda>(c, v). \<lparr>pl_conta = c, pl_VALOR = v,
                  pl_Data = \<lparr>day = 31, month = 7, year = today_year\<rparr>\<rparr>) (zip cs vs)]\<rparr>
   \<and> load_pl_file today_year pl ''PL Total - 31.02.xlsx'' s =
       st_error (Data_invalida ''PL Total - 31.02.xlsx'') s
   \<and> pl_data (load_pl_file today_year pl ''PL Total - 31.02.xlsx'' s) = pl_data s
   \<and> load_pl_file today_year pl ''report.xlsx'' s = st_error (Nome_sem_data ''report.xlsx'') s
   \<and> pl_data (load_pl_file today_year pl ''report.xlsx'' s) = pl_data s
   \<and> load_pl_files today_year ((pl, ''PL Total - 31.02.xlsx'') # rest) s =
       load_pl_files today_year rest (st_error (Data_invalida ''PL Total - 31.02.xlsx'') s)
   \<and> load_pl_files today_year ((pl, ''report.xlsx'') # rest) s =
       load_pl_files today_year rest (st_error (Nome_sem_data ''report.xlsx'') s)"
proof -
  have ok: "load_pl_file today_year (Inr \<lparr>sheet_Conta = Some cs, sheet_Valor = Some vs\<rparr>)
         ''PL Total - 31.07.xlsx'' s =
       s\<lparr>pl_data := pl_data s @
          [map (\<lambda>(c, v). \<lparr>pl_conta = c, pl_VALOR = v,
                  pl_Data = \<lparr>day = 31, month = 7, year = today_year\<rparr>\<rparr>) (zip cs vs)]\<rparr>"
    unfolding load_pl_file_def re_search_31_07 by (simp add: parse_date_31_07)
  have invalid: "load_pl_file today_year pl ''PL Total - 31.02.xlsx'' s =
       st_error (Data_invalida ''PL Total - 31.02.xlsx'') s"
    unfolding load_pl_file_def re_search_31_02 by (simp add: parse_date_31_02)
  have missing: "load_pl_file today_year pl ''report.xlsx'' s =
       st_error (Nome_sem_data ''report.xlsx'') s"
    unfolding load_pl_file_def re_search_report by simp
  have kept: "pl_data (st_error e s) = pl_data s" for e
    by (simp add: st_error_def)
  show ?thesis
    using re_search_31_07 parse_date_31_07 ok invalid missing kept by simp
qed

theorem date_tag_examples_witness:
  "pl_data (load_pl_files 2026
      [(Inr \<lparr>sheet_Conta = Some [Some ''00111''], sheet_Valor = Some [Some 5]\<rparr>, ''report.xlsx''),
       (Inr \<lparr>sheet_Conta = Some [Some ''00111''], sheet_Valor = Some [Some 6]\<rparr>, ''PL Total - 31.02.xlsx''),
       (Inr \<lparr>sheet_Conta = Some [Some ''00111''], sheet_Valor = Some [Some 7]\<rparr>, ''PL Total - 31.07.xlsx'')]
      init)
   = [[\<lparr>pl_conta = Some ''00111'', pl_VALOR = Some 7,
        pl_Data = \<lparr>day = 31, month = 7, year = 2026\<rparr>\<rparr>]]"
proof -
  note ex = date_tag_examples [of 2026 "[Some ''00111'']" "[Some 7]"]
  show ?thesis
    by (simp add: ex st_error_def init_def)
qed






subsection \<open>The joined rows\<close>

lemma daily_rate_cases:
  "daily_rate taxa =
     (case taxa of
        None \<Rightarrow> None
      | Some a \<Rightarrow> if a + 1 < 0 then None else Some (((a + 1) powr (1 / 252) - 1) * 100))"
  by (simp add: daily_rate_def np_power_def calculo_diario_def split: option.splits)

lemma tx_gestao_row:
  "row \<in> set (tx_gestao ref pls) \<Longrightarrow>
     Tx_Gestao_Diaria row = daily_rate (Taxa_de_Gestao row) \<and>
     Valor_de_cobranca row = fee_amount (VALOR row) (Tx_Gestao_Diaria row)"
  by (auto simp: tx_gestao_def add_columns_def)

text \<open>
  C1: in every row of the joined table the daily rate is
  \<open>((Taxa_de_Gestao + 1) ** (1/252) - 1) * 100\<close>: null for a null annual rate (and for
  a negative base of the power, where numpy gives NaN); an annual rate 0 gives the daily
  rate 0, and an annual rate 1 gives \<open>(2 ** (1/252) - 1) * 100\<close>.
\<close>

theorem daily_rate_formula:
  "\<forall>row \<in> set (tx_gestao ref pls).
     Tx_Gestao_Diaria row =
       (case Taxa_de_Gestao row of
          None \<Rightarrow> None
        | Some a \<Rightarrow> if a + 1 < 0 then None else Some (((a + 1) powr (1 / 252) - 1) * 100))
     \<and> (Taxa_de_Gestao row = Some 0 \<longrightarrow> Tx_Gestao_Diaria row = Some 0)
     \<and> (Taxa_de_Gestao row = Some 1 \<longrightarrow>
          Tx_Gestao_Diaria row = Some ((2 powr (1 / 252) - 1) * 100))"
proof
  fix row
  assume "row \<in> set (tx_gestao ref pls)"
  then have tx: "Tx_Gestao_Diaria row = daily_rate (Taxa_de_Gestao row)"
    by (simp add: tx_gestao_row)
  show "Tx_Gestao_Diaria row =
       (case Taxa_de_Gestao row of
          None \<Rightarrow> None
        | Some a \<Rightarrow> if a + 1 < 0 then None else Some (((a + 1) powr (1 / 252) - 1) * 100))
     \<and> (Taxa_de_Gestao row = Some 0 \<longrightarrow> Tx_Gestao_Diaria row = Some 0)
     \<and> (Taxa_de_Gestao row = Some 1 \<longrightarrow>
          Tx_Gestao_Diaria row = Some ((2 powr (1 / 252) - 1) * 100))"
    unfolding tx by (simp add: daily_rate_cases)
qed

theorem daily_rate_formula_witness:
  "map Taxa_de_Gestao
     (tx_gestao
        [\<lparr>ref_conta = ''00111'', ref_Taxa = Some 1, ref_index = None\<rparr>,
         \<lparr>ref_conta = ''00222'', ref_Taxa = Some 0, ref_index = None\<rparr>]
        [[\<lparr>pl_conta = Some ''00222'', pl_VALOR = Some 100,
           pl_Data = \<lparr>day = 1, month = 3, year = 2026\<rparr>\<rparr>]])
     = [Some 1, Some 0]
   \<and> map Tx_Gestao_Diaria
     (tx_gestao
        [\<lparr>ref_conta = ''00111'', ref_Taxa = Some 1, ref_index = None\<rparr>,
         \<lparr>ref_conta = ''00222'', ref_Taxa = Some 0, ref_index = None\<rparr>]
        [[\<lparr>pl_conta = Some ''00222'', pl_VALOR = Some 100,
           pl_Data = \<lparr>day = 1, month = 3, year = 2026\<rparr>\<rparr>]])
     = [Some ((2 powr (1 / 252) - 1) * 100), Some 0]"
proof -
  let ?tx = "tx_gestao
        [\<lparr>ref_conta = ''00111'', ref_Taxa = Some 1, ref_index = None\<rparr>,
         \<lparr>ref_conta = ''00222'', ref_Taxa = Some 0, ref_index = None\<rparr>]
        [[\<lparr>pl_conta = Some ''00222'', pl_VALOR = Some 100,
           pl_Data = \<lparr>day = 1, month = 3, year = 2026\<rparr>\<rparr>]]"
  have taxa: "map Taxa_de_Gestao ?tx = [Some 1, Some 0]"
    by (simp add: tx_gestao_def merge_outer_def rows_for_key_def dropna_conta_def non_null_def
        add_columns_def)
  then obtain r1 r2 where rows: "?tx = [r1, r2]"
    and t1: "Taxa_de_Gestao r1 = Some 1" and t2: "Taxa_de_Gestao r2 = Some 0"
    by (auto simp: map_eq_Cons_conv)
  have m1: "r1 \<in> set ?tx" and m2: "r2 \<in> set ?tx"
    using rows by simp_all
  have "Tx_Gestao_Diaria r1 = Some ((2 powr (1 / 252) - 1) * 100)"
    using daily_rate_formula [THEN bspec, OF m1] t1 by simp
  moreover have "Tx_Gestao_Diaria r2 = Some 0"
    using daily_rate_formula [THEN bspec, OF m2] t2 by simp
  ultimately show ?thesis
    using taxa rows by simp
qed





subsection \<open>The report\<close>


lemma example_tx_gestao:
  "tx_gestao [\<lparr>ref_conta = ''00222'', ref_Taxa = Some (- 1), ref_index = None\<rparr>,
              \<lparr>ref_conta = ''00111'', ref_Taxa = Some 0, ref_index = None\<rparr>]
     (pl_data example_session) =
   [\<lparr>conta = Some ''00111'', Taxa_de_Gestao = Some 0, VALOR = None, Data = None,
      Tx_Gestao_Diaria = Some 0, Valor_de_cobranca = None\<rparr>,
    \<lparr>conta = Some ''00222'', Taxa_de_Gestao = Some (- 1), VALOR = Some (12345 / 1000),
      Data = Some ''01.03'', Tx_Gestao_Diaria = Some (- 100),
      Valor_de_cobranca = Some (- (1234 / 100))\<rparr>,
    \<lparr>conta = Some ''00222'', Taxa_de_Gestao = Some (- 1), VALOR = Some (10005 / 1000),
      Data = Some ''02.03'', Tx_Gestao_Diaria = Some (- 100),
      Valor_de_cobranca = Some (- 10)\<rparr>,
    \<lparr>conta = Some ''00333'', Taxa_de_Gestao = None, VALOR = Some 7,
      Data = Some ''02.03'', Tx_Gestao_Diaria = None, Valor_de_cobranca = None\<rparr>]"
  by (simp add: example_session_def tx_gestao_def merge_outer_def rows_for_key_def
      dropna_conta_def non_null_def add_columns_def daily_rate_def np_power_def fee_amount_def
      strftime_def two_digits_def round2_def rint_def)

lemma example_result:
  "calculate_daily_fees example_session = (Inr (Some example_report), example_session)"
  unfolding calculate_daily_fees_def
  apply (simp add: example_session_def [THEN arg_cong, of planilha_controle] frame_empty_def)
  apply (simp add: example_tx_gestao)
  apply (simp add: example_session_def)
  apply (simp add: example_report_def pivot_table_def grouped_def non_null_def pivot_cell_def
      add_total_def nan_to_zero_def round2_def rint_def)
  done


lemma set_non_null: "set (non_null xs) = {v. Some v \<in> set xs}"
  by (auto simp: non_null_def split: option.splits)

lemma rows_for_key_dated:
  "(\<exists>r \<in> set (rows_for_key left right k'). m_conta r = Some k \<and> m_Data r \<noteq> None)
     \<longleftrightarrow> k' = k \<and> (\<exists>p \<in> set right. pl_conta p = Some k)"
proof (cases "filter (\<lambda>r. pl_conta r = Some k') right = []")
  case True
  then have "\<not> (\<exists>p \<in> set right. pl_conta p = Some k')"
    by (simp add: filter_empty_conv)
  with True show ?thesis
    by (auto simp: rows_for_key_def)
next
  case False
  then obtain p where p: "p \<in> set right" "pl_conta p = Some k'"
    by (auto simp: filter_empty_conv)
  show ?thesis
  proof (cases "filter (\<lambda>l. ref_conta l = k') left = []")
    case True
    with False p show ?thesis
      by (auto simp: rows_for_key_def)
  next
    case nonempty: False
    then obtain l where "l \<in> set left" "ref_conta l = k'"
      by (auto simp: filter_empty_conv)
    with False nonempty p show ?thesis
      by (auto simp: rows_for_key_def)
  qed
qed

lemma merge_outer_dated:
  "(\<exists>r \<in> set (merge_outer left right). m_conta r = Some k \<and> m_Data r \<noteq> None)
     \<longleftrightarrow> (\<exists>p \<in> set right. pl_conta p = Some k)"
proof -
  let ?keys = "sort (remdups (map ref_conta left @ non_null (map pl_conta right)))"
  have key: "k \<in> set ?keys" if "p \<in> set right" "pl_conta p = Some k" for p
  proof -
    from that have "Some k \<in> set (map pl_conta right)"
      by force
    then show ?thesis
      by (simp add: set_non_null)
  qed
  have "(\<exists>r \<in> set (merge_outer left right). m_conta r = Some k \<and> m_Data r \<noteq> None)
     \<longleftrightarrow> (\<exists>k' \<in> set ?keys. \<exists>r \<in> set (rows_for_key left right k').
            m_conta r = Some k \<and> m_Data r \<noteq> None)"
    by (auto simp: merge_outer_def)
  also have "\<dots> \<longleftrightarrow> k \<in> set ?keys \<and> (\<exists>p \<in> set right. pl_conta p = Some k)"
    by (simp only: rows_for_key_dated) blast
  also have "\<dots> \<longleftrightarrow> (\<exists>p \<in> set right. pl_conta p = Some k)"
    using key by blast
  finally show ?thesis .
qed

lemma add_columns_keys:
  "conta (add_columns r) = m_conta r" "Data (add_columns r) = map_option strftime (m_Data r)"
  by (simp_all add: add_columns_def)

lemma grouped_accounts:
  "set (non_null (map conta (grouped (tx_gestao ref pls))))
     = {c. \<exists>row \<in> set (concat pls). pl_conta row = Some c}"
proof -
  have "k \<in> set (non_null (map conta (grouped (tx_gestao ref pls))))
      \<longleftrightarrow> (\<exists>r \<in> set (merge_outer ref (concat pls)). m_conta r = Some k \<and> m_Data r \<noteq> None)"
    (is "?l \<longleftrightarrow> ?r") for k
  proof
    assume ?l
    then obtain row where "row \<in> set (grouped (tx_gestao ref pls))" "conta row = Some k"
      by (auto simp: set_non_null)
    then obtain r where "r \<in> set (merge_outer ref (concat pls))" "row = add_columns r"
      "conta row = Some k" "Data row \<noteq> None"
      by (auto simp: grouped_def tx_gestao_def dropna_conta_def)
    then show ?r
      using add_columns_keys [of r] by auto
  next
    assume ?r
    then obtain r where r: "r \<in> set (merge_outer ref (concat pls))" "m_conta r = Some k"
      "m_Data r \<noteq> None"
      by blast
    then have "add_columns r \<in> set (grouped (tx_gestao ref pls))"
      by (simp add: grouped_def tx_gestao_def dropna_conta_def add_columns_keys)
    moreover have "conta (add_columns r) = Some k"
      using r by (simp add: add_columns_keys)
    ultimately have "Some k \<in> set (map conta (grouped (tx_gestao ref pls)))"
      by force
    then show ?l
      by (simp add: set_non_null)
  qed
  then show ?thesis
    by (auto simp only: merge_outer_dated)
qed

lemma accounts_of_report:
  "map account (report_rows (add_total (pivot_table tx))) = index (pivot_table tx)"
proof -
  have "length (index (pivot_table tx)) = length (cells (pivot_table tx))"
    by (simp add: pivot_table_def Let_def)
  moreover have "account \<circ> (\<lambda>(c, numeric). \<lparr>account = c, dates = numeric,
      Total = round2 (sum_list (map nan_to_zero numeric))\<rparr>) = fst"
    by (auto simp: fun_eq_iff)
  ultimately show ?thesis
    by (simp add: add_total_def)
qed

text \<open>
  C3 fails on the code: the accounts of the report are the non-null accounts of the
  snapshot rows, in order and each once, whether or not the reference table has them.
  An account that only the reference table has is joined with a null date, and the pivot
  leaves out the rows with a null date.
\<close>

theorem report_accounts_are_snapshot_accounts:
  "fst (calculate_daily_fees s) = Inr (Some rep) \<Longrightarrow>
     sorted (map account (report_rows rep)) \<and>
     distinct (map account (report_rows rep)) \<and>
     set (map account (report_rows rep)) =
       {c. \<exists>row \<in> set (concat (pl_data s)). pl_conta row = Some c}"
proof -
  assume "fst (calculate_daily_fees s) = Inr (Some rep)"
  then obtain ref where
    rep: "rep = add_total (pivot_table (tx_gestao ref (pl_data s)))"
    by (auto simp: calculate_daily_fees_def split: option.splits if_splits frame.splits)
  have idx: "index (pivot_table tx) = sort (remdups (non_null (map conta (grouped tx))))" for tx
    by (simp add: pivot_table_def Let_def)
  show ?thesis
    unfolding rep accounts_of_report idx by (simp add: grouped_accounts)
qed

theorem report_accounts_are_snapshot_accounts_witness:
  "(case fst (calculate_daily_fees reference_only_session) of
      Inr (Some rep) \<Rightarrow> Some (map account (report_rows rep))
    | _ \<Rightarrow> None) = Some [''00222'', ''00333'']"
proof -
  let ?tx = "tx_gestao
      [\<lparr>ref_conta = ''00111'', ref_Taxa = Some (2 / 100), ref_index = None\<rparr>,
       \<lparr>ref_conta = ''00222'', ref_Taxa = Some (15 / 1000), ref_index = None\<rparr>]
      (pl_data reference_only_session)"
  let ?rep = "add_total (pivot_table ?tx)"
  have res: "fst (calculate_daily_fees reference_only_session) = Inr (Some ?rep)"
    by (simp add: calculate_daily_fees_def reference_only_session_def frame_empty_def)
  have "{c. \<exists>row \<in> set (concat (pl_data reference_only_session)). pl_conta row = Some c}
      = {''00222'', ''00333''}"
    by (auto simp: reference_only_session_def)
  with report_accounts_are_snapshot_accounts [OF res]
  have "sorted (map account (report_rows ?rep))"
    "distinct (map account (report_rows ?rep))"
    "set (map account (report_rows ?rep)) = {''00222'', ''00333''}"
    by simp_all
  then have "map account (report_rows ?rep) = sorted_list_of_set {''00222'', ''00333''}"
    by (metis sorted_list_of_set.idem_if_sorted_distinct)
  also have "\<dots> = [''00222'', ''00333'']"
    by simp
  finally show ?thesis
    by (simp add: res)
qed

subsection \<open>What calculate_daily_fees leaves and when it refuses\<close>

text \<open>
  C9: \<open>calculate_daily_fees\<close> leaves \<open>planilha_controle\<close> and \<open>pl_data\<close> as they were in
  every session, and when it returns a report (or raises) it changes nothing at all; it
  shows a message only when it returns \<open>None\<close>.
\<close>

theorem calculate_daily_fees_keeps_inputs:
  "planilha_controle (snd (calculate_daily_fees s)) = planilha_controle s \<and>
   pl_data (snd (calculate_daily_fees s)) = pl_data s \<and>
   (fst (calculate_daily_fees s) \<noteq> Inr None \<longrightarrow> snd (calculate_daily_fees s) = s)"
  by (simp add: calculate_daily_fees_def st_error_def split: option.splits frame.splits)

theorem calculate_daily_fees_keeps_inputs_witness:
  "fst (calculate_daily_fees example_session) = Inr (Some example_report) \<and>
   snd (calculate_daily_fees example_session) = example_session \<and>
   snd (calculate_daily_fees init) = init\<lparr>shown := [Nao_carregados]\<rparr>"
proof -
  have res: "fst (calculate_daily_fees example_session) = Inr (Some example_report)"
    by (simp add: example_result)
  then have "fst (calculate_daily_fees example_session) \<noteq> Inr None"
    by simp
  with calculate_daily_fees_keeps_inputs [of example_session]
  have "snd (calculate_daily_fees example_session) = example_session"
    by blast
  moreover have "snd (calculate_daily_fees init) = init\<lparr>shown := [Nao_carregados]\<rparr>"
    by (simp add: calculate_daily_fees_def init_def st_error_def)
  ultimately show ?thesis
    using res by simp
qed

lemma load_control_file_pl_data: "pl_data (load_control_file uploaded s) = pl_data s"
  by (simp add: load_control_file_def st_error_def Let_def split: sum.splits option.splits)

text \<open>
  C5, as amended: \<open>calculate_daily_fees\<close> returns \<open>None\<close> and shows the message, without
  joining, whenever the reference table is unset or has no row, or no snapshot table has
  been appended; so it does after loading the reference table and no snapshot file at all.
\<close>

theorem sentinel_when_not_loaded:
  "(planilha_controle s = None \<or> (\<exists>f. planilha_controle s = Some f \<and> frame_empty f)
      \<or> pl_data s = []
    \<longrightarrow> calculate_daily_fees s = (Inr None, st_error Nao_carregados s)) \<and>
   fst (calculate_daily_fees (load_pl_files today_year [] (load_control_file uploaded init)))
     = Inr None"
proof
  show "planilha_controle s = None \<or> (\<exists>f. planilha_controle s = Some f \<and> frame_empty f)
      \<or> pl_data s = []
    \<longrightarrow> calculate_daily_fees s = (Inr None, st_error Nao_carregados s)"
    by (auto simp: calculate_daily_fees_def split: option.splits)
  have "pl_data (load_control_file uploaded init) = []"
    by (simp add: load_control_file_pl_data init_def)
  then show "fst (calculate_daily_fees (load_pl_files today_year [] (load_control_file uploaded init)))
     = Inr None"
    by (simp add: calculate_daily_fees_def split: option.splits)
qed

theorem sentinel_when_not_loaded_witness:
  "calculate_daily_fees init = (Inr None, init\<lparr>shown := [Nao_carregados]\<rparr>) \<and>
   calculate_daily_fees (example_session\<lparr>pl_data := []\<rparr>)
     = (Inr None, example_session\<lparr>pl_data := [], shown := [Nao_carregados]\<rparr>) \<and>
   calculate_daily_fees (example_session\<lparr>planilha_controle := Some (Reference [])\<rparr>)
     = (Inr None, example_session\<lparr>planilha_controle := Some (Reference []),
          shown := [Nao_carregados]\<rparr>)"
proof -
  have a: "planilha_controle init = None"
    by (simp add: init_def)
  have b: "pl_data (example_session\<lparr>pl_data := []\<rparr>) = []"
    by simp
  have c: "\<exists>f. planilha_controle (example_session\<lparr>planilha_controle := Some (Reference [])\<rparr>)
      = Some f \<and> frame_empty f"
    by (simp add: frame_empty_def)
  from a b c
    sentinel_when_not_loaded [of init, THEN conjunct1]
    sentinel_when_not_loaded [of "example_session\<lparr>pl_data := []\<rparr>", THEN conjunct1]
    sentinel_when_not_loaded [of "example_session\<lparr>planilha_controle := Some (Reference [])\<rparr>",
      THEN conjunct1]
  show ?thesis
    by (simp add: st_error_def init_def example_session_def)
qed

text \<open>
  As stated, for every session without a snapshot row, C5 fails: the guard counts the
  appended tables, not their rows. After a snapshot file with the two columns and no row,
  the table list is not empty and the report is computed.
\<close>

theorem sentinel_counterexample:
  "concat (pl_data
     (load_pl_file 2026 (Inr \<lparr>sheet_Conta = Some [], sheet_Valor = Some []\<rparr>)
        ''PL Total - 01.03.xlsx''
        (load_control_file
           (Inr \<lparr>n_rows = 1, Conta = Some [''111.0''], Taxa_de_Gestao_col = Some [Some 0]\<rparr>)
           init))) = [] \<and>
   fst (calculate_daily_fees
     (load_pl_file 2026 (Inr \<lparr>sheet_Conta = Some [], sheet_Valor = Some []\<rparr>)
        ''PL Total - 01.03.xlsx''
        (load_control_file
           (Inr \<lparr>n_rows = 1, Conta = Some [''111.0''], Taxa_de_Gestao_col = Some [Some 0]\<rparr>)
           init))) \<noteq> Inr None"
proof -
  have tag: "re_search ''PL Total - 01.03.xlsx'' = Some ''01.03''"
    by (simp add: match_here_def is_digit_def)
  have date: "parse_date 2026 ''01.03'' = Inr \<lparr>day = 1, month = 3, year = 2026\<rparr>"
    by (simp add: date_defs)
  have ctl: "load_control_file
           (Inr \<lparr>n_rows = 1, Conta = Some [''111.0''], Taxa_de_Gestao_col = Some [Some 0]\<rparr>)
           init
       = \<lparr>planilha_controle =
            Some (Reference [\<lparr>ref_conta = ''00111'', ref_Taxa = Some 0, ref_index = None\<rparr>]),
          pl_data = [], shown = []\<rparr>"
    by (simp add: load_control_file_def init_def base_rows_def contas_add_zero_def normalize_def
        contas_3_zeros_def enumerate_eq_zip)
  have pl: "load_pl_file 2026 (Inr \<lparr>sheet_Conta = Some [], sheet_Valor = Some []\<rparr>)
        ''PL Total - 01.03.xlsx''
        \<lparr>planilha_controle =
            Some (Reference [\<lparr>ref_conta = ''00111'', ref_Taxa = Some 0, ref_index = None\<rparr>]),
          pl_data = [], shown = []\<rparr>
      = \<lparr>planilha_controle =
            Some (Reference [\<lparr>ref_conta = ''00111'', ref_Taxa = Some 0, ref_index = None\<rparr>]),
          pl_data = [[]], shown = []\<rparr>"
    unfolding load_pl_file_def tag by (simp add: date)
  show ?thesis
    unfolding ctl pl by (simp add: calculate_daily_fees_def frame_empty_def)
qed

subsection \<open>The reference table\<close>







text \<open>
  C8 fails on the code: no exception leaves \<open>load_control_file\<close>, and the table is left
  as it was when \<open>read_excel\<close> fails; but the attribute is assigned before the columns
  are looked up, so a sheet without the column \<open>Conta\<close> is stored as read, and a sheet
  without the column of rates is stored with its accounts rewritten.
\<close>

theorem load_control_file_on_failure:
  "load_control_file (Inl e) s = st_error (Erro_planilha_de_controle e) s \<and>
   planilha_controle (load_control_file (Inl e) s) = planilha_controle s \<and>
   (Conta sh = None \<longrightarrow>
      planilha_controle (load_control_file (Inr sh) s) = Some (Sheet sh)) \<and>
   (Conta sh = Some cs \<and> Taxa_de_Gestao_col sh = None \<longrightarrow>
      planilha_controle (load_control_file (Inr sh) s)
        = Some (Sheet (sh\<lparr>Conta := Some (map normalize cs)\<rparr>)))"
  by (simp add: load_control_file_def st_error_def)

theorem load_control_file_on_failure_witness:
  "planilha_controle init = None \<and>
   load_control_file
     (Inr \<lparr>n_rows = 1, Conta = Some [''989247.0''], Taxa_de_Gestao_col = None\<rparr>) init
   = \<lparr>planilha_controle =
        Some (Sheet \<lparr>n_rows = 1, Conta = Some [''00989247''], Taxa_de_Gestao_col = None\<rparr>),
      pl_data = [],
      shown = [Erro_planilha_de_controle (KeyError ''Taxa de Gestao'')]\<rparr> \<and>
   fst (calculate_daily_fees
     \<lparr>planilha_controle =
        Some (Sheet \<lparr>n_rows = 1, Conta = Some [''00989247''], Taxa_de_Gestao_col = None\<rparr>),
      pl_data = pl_data example_session,
      shown = [Erro_planilha_de_controle (KeyError ''Taxa de Gestao'')]\<rparr>)
   = Inl (KeyError ''conta'')"
proof -
  let ?sh = "\<lparr>n_rows = 1, Conta = Some [''989247.0''], Taxa_de_Gestao_col = None\<rparr>"
  have "Conta ?sh = Some [''989247.0''] \<and> Taxa_de_Gestao_col ?sh = None"
    by simp
  with load_control_file_on_failure [of _ init ?sh "[''989247.0'']"]
  have "planilha_controle (load_control_file (Inr ?sh) init)
      = Some (Sheet (?sh\<lparr>Conta := Some (map normalize [''989247.0''])\<rparr>))"
    by blast
  then show ?thesis
    by (simp add: load_control_file_def init_def st_error_def normalize_def
        calculate_daily_fees_def frame_empty_def example_session_def)
qed

end
